theory Spec2Isabelle
  imports Main "HOL-Library.Word"
begin

unbundle bit_operations_syntax

section \<open>The destructor type and the pointer casts\<close>

text \<open>
  Both headers declare \<^verbatim>\<open>typedef void (*squeal_destructor_type)(void*);\<close>.
  A value of that type is a code address, held here as a word of the platform's
  pointer width \<open>'w\<close>. The width is a type parameter: every statement below holds
  for 32-bit and 64-bit targets alike.
\<close>

type_synonym 'w squeal_destructor_type = "'w word"

text \<open>
  The initialisers \<^verbatim>\<open>0\<close> and \<^verbatim>\<open>-1\<close> are expressions of type \<^verbatim>\<open>int\<close>, which is
  32 bits wide on every platform that has \<^verbatim>\<open>Foundation/Foundation.h\<close>. The unary minus
  is the one of \<^verbatim>\<open>int\<close>.
\<close>

type_synonym c_int = "32 word"

text \<open>
  The cast \<^verbatim>\<open>(squeal_destructor_type)e\<close> of an \<^verbatim>\<open>int\<close> expression. The conversion of
  an integer to a pointer is the compiler's choice; clang and gcc convert a signed
  integer by sign extension (or truncation) to the pointer width, which is \<open>scast\<close>.
\<close>

definition destructor_cast :: "c_int \<Rightarrow> 'w::len squeal_destructor_type" where
  "destructor_cast e = scast e"

text \<open>
  The null pointer of the destructor type and the equality operator \<^verbatim>\<open>==\<close> of C on
  two pointers, whose result is the \<^verbatim>\<open>int\<close> 1 or 0. The null pointer is the address 0.
\<close>

definition null_destructor :: "'w::len squeal_destructor_type" where
  "null_destructor = 0"

definition pointer_eq :: "'w::len squeal_destructor_type \<Rightarrow> 'w squeal_destructor_type \<Rightarrow> c_int" where
  "pointer_eq p q = (if p = q then 1 else 0)"

section \<open>The constants of src/Squeal/Squeal.h\<close>

text \<open>
  \<^verbatim>\<open>const squeal_destructor_type SQUEAL_STATIC = ((squeal_destructor_type)0);\<close>
  \<^verbatim>\<open>const squeal_destructor_type SQUEAL_TRANSIENT = ((squeal_destructor_type)-1);\<close>
\<close>

definition SQUEAL_STATIC :: "'w::len squeal_destructor_type" where
  "SQUEAL_STATIC = destructor_cast 0"

definition SQUEAL_TRANSIENT :: "'w::len squeal_destructor_type" where
  "SQUEAL_TRANSIENT = destructor_cast (- 1)"

section \<open>The constants of src/Squeal-iOS/Squeal.h\<close>

text \<open>
  The iOS header repeats the typedef and the two definitions under the same names;
  the suffix tells the two translations apart.
\<close>

type_synonym 'w squeal_destructor_type_iOS = "'w word"

definition SQUEAL_STATIC_iOS :: "'w::len squeal_destructor_type_iOS" where
  "SQUEAL_STATIC_iOS = destructor_cast 0"

definition SQUEAL_TRANSIENT_iOS :: "'w::len squeal_destructor_type_iOS" where
  "SQUEAL_TRANSIENT_iOS = destructor_cast (- 1)"

section \<open>The objects a header declares, as a process holds them\<close>

text \<open>
  Each header declares four objects of static storage duration:
  \<^verbatim>\<open>FOUNDATION_EXPORT double SquealVersionNumber;\<close>
  \<^verbatim>\<open>FOUNDATION_EXPORT const unsigned char SquealVersionString[];\<close>
  and the two sentinels. (The iOS header names the first two
  \<^verbatim>\<open>Squeal_iOSVersionNumber\<close> and \<^verbatim>\<open>Squeal_iOSVersionString\<close>.) The double is held
  by its 64-bit pattern and the string by its bytes; nothing here computes with them.
  The record's parameter \<open>'p\<close> is the destructor type, a \<open>'w word\<close> throughout.
\<close>

record 'p squeal_objects =
  SquealVersionNumber :: "64 word"
  SquealVersionString :: "8 word list"
  SQUEAL_STATIC_obj :: 'p
  SQUEAL_TRANSIENT_obj :: 'p

text \<open>
  The objects at program start. The two version symbols are only declared
  (\<^verbatim>\<open>FOUNDATION_EXPORT\<close> is \<^verbatim>\<open>extern\<close>); their definitions belong to the build's
  versioning tool, so their values are parameters. The sentinels are defined by the
  header with their initialisers.
\<close>

definition Squeal_h :: "64 word \<Rightarrow> 8 word list \<Rightarrow> 'w::len word squeal_objects" where
  "Squeal_h vn vs =
     \<lparr>SquealVersionNumber = vn, SquealVersionString = vs,
      SQUEAL_STATIC_obj = SQUEAL_STATIC, SQUEAL_TRANSIENT_obj = SQUEAL_TRANSIENT\<rparr>"

definition Squeal_iOS_h :: "64 word \<Rightarrow> 8 word list \<Rightarrow> 'w::len word squeal_objects" where
  "Squeal_iOS_h vn vs =
     \<lparr>SquealVersionNumber = vn, SquealVersionString = vs,
      SQUEAL_STATIC_obj = SQUEAL_STATIC_iOS, SQUEAL_TRANSIENT_obj = SQUEAL_TRANSIENT_iOS\<rparr>"

text \<open>
  The identifiers, the values an access moves, and the qualifier of each declaration:
  only the version number is declared without \<^verbatim>\<open>const\<close>.
\<close>

datatype squeal_identifier = Id_VersionNumber | Id_VersionString | Id_STATIC | Id_TRANSIENT

datatype 'p c_value = Double "64 word" | UChars "8 word list" | Destructor 'p

fun is_const :: "squeal_identifier \<Rightarrow> bool" where
  "is_const Id_VersionNumber = False"
| "is_const Id_VersionString = True"
| "is_const Id_STATIC = True"
| "is_const Id_TRANSIENT = True"

text \<open>
  What client code can do with the declared objects: read one, or assign to one. C
  rejects an assignment whose left side is \<^verbatim>\<open>const\<close>-qualified and one whose right
  side has the wrong type; both are results of the model, not states of it. A read
  yields the stored value and leaves every object as it was. (A program that writes
  through a cast that drops \<^verbatim>\<open>const\<close> has no defined behaviour and is outside the
  model.)
\<close>

datatype access_error = Assignment_to_const | Type_mismatch

datatype 'p access = Load squeal_identifier | Assign squeal_identifier "'p c_value"

fun load :: "squeal_identifier \<Rightarrow> 'w::len word squeal_objects \<Rightarrow> 'w word c_value" where
  "load Id_VersionNumber s = Double (SquealVersionNumber s)"
| "load Id_VersionString s = UChars (SquealVersionString s)"
| "load Id_STATIC s = Destructor (SQUEAL_STATIC_obj s)"
| "load Id_TRANSIENT s = Destructor (SQUEAL_TRANSIENT_obj s)"

fun assign :: "squeal_identifier \<Rightarrow> 'w word c_value \<Rightarrow> 'w::len word squeal_objects
    \<Rightarrow> access_error + 'w word squeal_objects" where
  "assign x v s =
     (if is_const x then Inl Assignment_to_const
      else (case v of
              Double d \<Rightarrow> Inr (s\<lparr>SquealVersionNumber := d\<rparr>)
            | _ \<Rightarrow> Inl Type_mismatch))"

fun perform :: "'w word access \<Rightarrow> 'w::len word squeal_objects
    \<Rightarrow> (access_error + 'w word c_value) \<times> 'w word squeal_objects" where
  "perform (Load x) s = (Inr (load x s), s)"
| "perform (Assign x v) s =
     (case assign x v s of
        Inl e \<Rightarrow> (Inl e, s)
      | Inr s' \<Rightarrow> (Inr v, s'))"

text \<open>
  A process, as far as these objects go, is a sequence of accesses; \<open>run\<close> returns
  the result of each access and the objects at the end.
\<close>

fun run :: "'w word access list \<Rightarrow> 'w::len word squeal_objects
    \<Rightarrow> (access_error + 'w word c_value) list \<times> 'w word squeal_objects" where
  "run [] s = ([], s)"
| "run (a # as) s =
     (case perform a s of
        (r, s') \<Rightarrow> (case run as s' of (rs, s'') \<Rightarrow> (r # rs, s'')))"

section \<open>Facts about the cast\<close>

lemma destructor_cast_zero: "destructor_cast 0 = 0"
  by (simp add: destructor_cast_def)

lemma destructor_cast_minus_one: "destructor_cast (- 1) = - 1"
  by (simp add: destructor_cast_def)

lemma minus_one_word_neq_zero: "(- 1 :: 'w::len word) \<noteq> 0"
  by simp

lemma uint_all_ones: "uint (- 1 :: 'w::len word) = 2 ^ LENGTH('w) - 1"
  by (simp add: unsigned_minus_1_eq_mask mask_eq_exp_minus_1)

section \<open>Facts about accesses and runs\<close>

text \<open>
  No access changes a \<^verbatim>\<open>const\<close>-qualified object: a read changes nothing, and the
  only assignment that is accepted stores into the version number.
\<close>

lemma perform_keeps_sentinels:
  "SQUEAL_STATIC_obj (snd (perform a s)) = SQUEAL_STATIC_obj s
   \<and> SQUEAL_TRANSIENT_obj (snd (perform a s)) = SQUEAL_TRANSIENT_obj s
   \<and> SquealVersionString (snd (perform a s)) = SquealVersionString s"
  by (cases a) (auto split: c_value.splits)

lemma snd_run_Cons: "snd (run (a # as) s) = snd (run as (snd (perform a s)))"
  by (simp add: case_prod_beta)

lemma fst_run_Cons: "fst (run (a # as) s) = fst (perform a s) # fst (run as (snd (perform a s)))"
  by (simp add: case_prod_beta)

lemma length_fst_run: "length (fst (run as s)) = length as"
  by (induction as arbitrary: s) (simp_all add: case_prod_beta)

lemma run_keeps_sentinels:
  "SQUEAL_STATIC_obj (snd (run as s)) = SQUEAL_STATIC_obj s
   \<and> SQUEAL_TRANSIENT_obj (snd (run as s)) = SQUEAL_TRANSIENT_obj s
   \<and> SquealVersionString (snd (run as s)) = SquealVersionString s"
proof (induction as arbitrary: s)
  case Nil
  show ?case by simp
next
  case (Cons a as)
  show ?case
    unfolding snd_run_Cons using Cons.IH [of "snd (perform a s)"] perform_keeps_sentinels [of a s]
    by simp
qed

lemma run_nth_Load:
  "i < length as \<Longrightarrow> as ! i = Load x \<Longrightarrow>
   fst (run as s) ! i = Inr (load x (snd (run (take i as) s)))"
proof (induction as arbitrary: i s)
  case Nil
  then show ?case by simp
next
  case (Cons a as)
  show ?case
  proof (cases i)
    case 0
    with Cons.prems show ?thesis by (simp add: case_prod_beta)
  next
    case (Suc k)
    with Cons.prems have "k < length as" "as ! k = Load x" by simp_all
    from Cons.IH [OF this, of "snd (perform a s)"] Suc show ?thesis
      by (simp add: case_prod_beta)
  qed
qed

lemma load_sentinel_run:
  "x = Id_STATIC \<or> x = Id_TRANSIENT \<Longrightarrow> load x (snd (run as s)) = load x s"
  using run_keeps_sentinels [of as s] by auto

text \<open>
  The model tells the objects apart: the version number, declared without
  \<^verbatim>\<open>const\<close>, can be assigned and its reads change, while an assignment to a
  sentinel is rejected.
\<close>

lemma version_number_reads_differ:
  "fst (run [Load Id_VersionNumber, Assign Id_VersionNumber (Double 7), Load Id_VersionNumber]
      (Squeal_h 1 [] :: 32 word squeal_objects))
   = [Inr (Double 1), Inr (Double 7), Inr (Double 7)]"
  by (simp add: Squeal_h_def)

lemma sentinel_assignment_rejected:
  "perform (Assign Id_STATIC v) s = (Inl Assignment_to_const, s)
   \<and> perform (Assign Id_TRANSIENT v) s = (Inl Assignment_to_const, s)"
  by simp

section \<open>Bit patterns of the sentinels\<close>

text \<open>
  C1. The bit pattern of \<open>SQUEAL_STATIC\<close> is zero at every pointer width, in both
  headers.
\<close>

theorem SQUEAL_STATIC_is_zero:
  "(SQUEAL_STATIC :: 'w::len word) = 0 \<and> (SQUEAL_STATIC_iOS :: 'w word) = 0"
  by (simp add: SQUEAL_STATIC_def SQUEAL_STATIC_iOS_def destructor_cast_zero)

text \<open>
  C2. The bit pattern of \<open>SQUEAL_TRANSIENT\<close> is all ones at the pointer width \<open>w\<close>:
  it is the word \<open>-1\<close>, its complement is zero, and read as an unsigned integer of
  that width it is \<open>2 ^ w - 1\<close>. The same holds in both headers.
\<close>

theorem SQUEAL_TRANSIENT_all_ones:
  "(SQUEAL_TRANSIENT :: 'w::len word) = - 1
   \<and> NOT (SQUEAL_TRANSIENT :: 'w word) = 0
   \<and> uint (SQUEAL_TRANSIENT :: 'w word) = 2 ^ LENGTH('w) - 1
   \<and> (SQUEAL_TRANSIENT_iOS :: 'w word) = - 1
   \<and> uint (SQUEAL_TRANSIENT_iOS :: 'w word) = 2 ^ LENGTH('w) - 1"
  by (simp add: SQUEAL_TRANSIENT_def SQUEAL_TRANSIENT_iOS_def destructor_cast_minus_one
      uint_all_ones)

text \<open>
  C3. \<open>SQUEAL_STATIC\<close> and \<open>SQUEAL_TRANSIENT\<close> differ at every pointer width, within
  each header and across the two.
\<close>

theorem SQUEAL_STATIC_neq_TRANSIENT:
  "(SQUEAL_STATIC :: 'w::len word) \<noteq> SQUEAL_TRANSIENT
   \<and> (SQUEAL_STATIC_iOS :: 'w word) \<noteq> SQUEAL_TRANSIENT_iOS
   \<and> (SQUEAL_STATIC :: 'w word) \<noteq> SQUEAL_TRANSIENT_iOS
   \<and> (SQUEAL_STATIC_iOS :: 'w word) \<noteq> SQUEAL_TRANSIENT"
  by (simp add: SQUEAL_STATIC_def SQUEAL_STATIC_iOS_def SQUEAL_TRANSIENT_def
      SQUEAL_TRANSIENT_iOS_def destructor_cast_zero destructor_cast_minus_one)


text \<open>
  C10. \<open>SQUEAL_STATIC\<close> is the null pointer of the destructor type: it equals the
  null pointer, and the comparison \<^verbatim>\<open>SQUEAL_STATIC == NULL\<close> yields 1, at every
  pointer width and in both headers.
\<close>

theorem SQUEAL_STATIC_is_null:
  "(SQUEAL_STATIC :: 'w::len word) = null_destructor
   \<and> pointer_eq (SQUEAL_STATIC :: 'w word) null_destructor = 1
   \<and> (SQUEAL_STATIC_iOS :: 'w word) = null_destructor
   \<and> pointer_eq (SQUEAL_STATIC_iOS :: 'w word) null_destructor = 1"
  by (simp add: SQUEAL_STATIC_def SQUEAL_STATIC_iOS_def null_destructor_def pointer_eq_def
      destructor_cast_zero)

section \<open>The two headers\<close>

text \<open>
  C5. The two headers define the same bridge: the values of \<open>SQUEAL_STATIC\<close> and
  of \<open>SQUEAL_TRANSIENT\<close> are equal across the headers (at the same destructor type,
  or the equations would not be well typed), the objects at program start are equal
  when the version symbols are, and every sequence of accesses then gives the same
  results and the same final objects under either header.
\<close>

theorem headers_define_same_sentinels:
  "(SQUEAL_STATIC :: 'w::len squeal_destructor_type) = (SQUEAL_STATIC_iOS :: 'w squeal_destructor_type_iOS)
   \<and> (SQUEAL_TRANSIENT :: 'w squeal_destructor_type) = (SQUEAL_TRANSIENT_iOS :: 'w squeal_destructor_type_iOS)
   \<and> (Squeal_h vn vs :: 'w word squeal_objects) = Squeal_iOS_h vn vs
   \<and> run as (Squeal_h vn vs :: 'w word squeal_objects) = run as (Squeal_iOS_h vn vs)"
  by (simp add: Squeal_h_def Squeal_iOS_h_def SQUEAL_STATIC_def SQUEAL_STATIC_iOS_def
      SQUEAL_TRANSIENT_def SQUEAL_TRANSIENT_iOS_def)

section \<open>Reads of the sentinels\<close>

text \<open>
  C4. The sentinels are immutable within a process: in every run, from any starting
  objects, two reads of \<open>SQUEAL_STATIC\<close> (or two of \<open>SQUEAL_TRANSIENT\<close>), at
  positions \<open>i\<close> and \<open>j\<close> of the run, yield the same result; and after every run
  from the objects at program start each sentinel still holds the value of its
  initialiser, under either header.
\<close>

theorem sentinel_reads_agree:
  assumes "i < length as" and "j < length as"
    and "as ! i = Load x" and "as ! j = Load x"
    and "x = Id_STATIC \<or> x = Id_TRANSIENT"
  shows "fst (run as s) ! i = fst (run as s) ! j
    \<and> SQUEAL_STATIC_obj (snd (run as (Squeal_h vn vs))) = (SQUEAL_STATIC :: 'w::len word)
    \<and> SQUEAL_TRANSIENT_obj (snd (run as (Squeal_h vn vs))) = (SQUEAL_TRANSIENT :: 'w word)
    \<and> SQUEAL_STATIC_obj (snd (run as (Squeal_iOS_h vn vs))) = (SQUEAL_STATIC_iOS :: 'w word)
    \<and> SQUEAL_TRANSIENT_obj (snd (run as (Squeal_iOS_h vn vs))) = (SQUEAL_TRANSIENT_iOS :: 'w word)"
proof -
  have at_i: "fst (run as s) ! i = Inr (load x (snd (run (take i as) s)))"
    using assms(1,3) by (rule run_nth_Load)
  have at_j: "fst (run as s) ! j = Inr (load x (snd (run (take j as) s)))"
    using assms(2,4) by (rule run_nth_Load)
  have "load x (snd (run (take i as) s)) = load x s"
    and "load x (snd (run (take j as) s)) = load x s"
    using assms(5) by (rule load_sentinel_run)+
  with at_i at_j have same: "fst (run as s) ! i = fst (run as s) ! j"
    by simp
  have "SQUEAL_STATIC_obj (snd (run as (Squeal_h vn vs))) = (SQUEAL_STATIC :: 'w word)"
    and "SQUEAL_TRANSIENT_obj (snd (run as (Squeal_h vn vs))) = (SQUEAL_TRANSIENT :: 'w word)"
    using run_keeps_sentinels [of as "Squeal_h vn vs :: 'w word squeal_objects"]
    by (simp_all add: Squeal_h_def)
  moreover
  have "SQUEAL_STATIC_obj (snd (run as (Squeal_iOS_h vn vs))) = (SQUEAL_STATIC_iOS :: 'w word)"
    and "SQUEAL_TRANSIENT_obj (snd (run as (Squeal_iOS_h vn vs))) = (SQUEAL_TRANSIENT_iOS :: 'w word)"
    using run_keeps_sentinels [of as "Squeal_iOS_h vn vs :: 'w word squeal_objects"]
    by (simp_all add: Squeal_iOS_h_def)
  ultimately show ?thesis
    using same by simp
qed

theorem sentinel_reads_agree_witness:
  "(0::nat) < length [Load Id_STATIC, Assign Id_VersionNumber (Double 7),
        Assign Id_STATIC (Destructor (5 :: 64 word)), Load Id_STATIC]
   \<and> (3::nat) < length [Load Id_STATIC, Assign Id_VersionNumber (Double 7),
        Assign Id_STATIC (Destructor (5 :: 64 word)), Load Id_STATIC]
   \<and> [Load Id_STATIC, Assign Id_VersionNumber (Double 7),
        Assign Id_STATIC (Destructor (5 :: 64 word)), Load Id_STATIC] ! 0 = Load Id_STATIC
   \<and> [Load Id_STATIC, Assign Id_VersionNumber (Double 7),
        Assign Id_STATIC (Destructor (5 :: 64 word)), Load Id_STATIC] ! 3 = Load Id_STATIC
   \<and> fst (run [Load Id_STATIC, Assign Id_VersionNumber (Double 7),
        Assign Id_STATIC (Destructor (5 :: 64 word)), Load Id_STATIC] (Squeal_h 1 [83, 0])) ! 0
     = fst (run [Load Id_STATIC, Assign Id_VersionNumber (Double 7),
        Assign Id_STATIC (Destructor (5 :: 64 word)), Load Id_STATIC] (Squeal_h 1 [83, 0])) ! 3"
  using sentinel_reads_agree [of 0 "[Load Id_STATIC, Assign Id_VersionNumber (Double 7),
        Assign Id_STATIC (Destructor (5 :: 64 word)), Load Id_STATIC]" 3 Id_STATIC
        "Squeal_h 1 [83, 0]" 1 "[83, 0]"]
  by simp

text \<open>
  C9. The version symbols have no effect on the sentinels: whatever values the version
  number and the version string have at program start, and whatever accesses
  (assignments to the version number among them) a process performs, a read of
  \<open>SQUEAL_STATIC\<close> or of \<open>SQUEAL_TRANSIENT\<close> yields the same value, under either
  header; and an assignment to the version number leaves both sentinels as they were.
\<close>

theorem sentinels_independent_of_version_symbols:
  "load Id_STATIC (snd (run as (Squeal_h vn vs))) = load Id_STATIC (snd (run as' (Squeal_h vn' vs')))
   \<and> load Id_TRANSIENT (snd (run as (Squeal_h vn vs)))
       = load Id_TRANSIENT (snd (run as' (Squeal_h vn' vs')))
   \<and> load Id_STATIC (snd (run as (Squeal_iOS_h vn vs)))
       = load Id_STATIC (snd (run as' (Squeal_iOS_h vn' vs')))
   \<and> load Id_TRANSIENT (snd (run as (Squeal_iOS_h vn vs)))
       = load Id_TRANSIENT (snd (run as' (Squeal_iOS_h vn' vs')))
   \<and> load Id_STATIC (snd (perform (Assign Id_VersionNumber (Double d)) s)) = load Id_STATIC s
   \<and> load Id_TRANSIENT (snd (perform (Assign Id_VersionNumber (Double d)) s)) = load Id_TRANSIENT s"
  using run_keeps_sentinels [of as "Squeal_h vn vs"] run_keeps_sentinels [of as' "Squeal_h vn' vs'"]
    run_keeps_sentinels [of as "Squeal_iOS_h vn vs"] run_keeps_sentinels [of as' "Squeal_iOS_h vn' vs'"]
  by (simp add: Squeal_h_def Squeal_iOS_h_def)

end
